theory Spec2Isabelle
  imports Complex_Main "HOL-Library.Product_Lexorder"
begin

section \<open>Streamflow statistics and metrics (program\_10.py)\<close>

text \<open>
  A shallow embedding of the functions of \<^verbatim>\<open>program_10.py\<close>: reading and scrubbing a
  daily discharge record, clipping it to a date window, the hydrologic metrics of one
  period, the water-year and monthly statistics tables, and their averages.

  The program works on pandas objects. A \<^verbatim>\<open>Series\<close> of discharges is a list whose
  entries are a reading or the missing marker (\<open>None\<close> stands for the \<^verbatim>\<open>NaN\<close> that
  \<^verbatim>\<open>read_csv\<close> stores for a missing reading). Readings are real numbers, and the
  special results of float arithmetic (not-a-number and the two infinities) are part of
  the model. Rounding of binary floating point is modelled where a comparison depends on
  it, the mean in \<open>CalcTqmean\<close>; elsewhere results are exact.
\<close>

subsection \<open>Numeric results\<close>

text \<open>
  The result of a float computation: a number, an infinity, or not-a-number.
  Division by zero does not raise on numpy scalars; it gives an infinity, or
  not-a-number for \<open>0 / 0\<close>. Signed zeros are not distinguished.
\<close>

datatype fl = Val real | PosInf | NegInf | NaN

definition fdiv :: "real \<Rightarrow> real \<Rightarrow> fl" where
  "fdiv a b =
     (if b \<noteq> 0 then Val (a / b)
      else if 0 < a then PosInf
      else if a < 0 then NegInf
      else NaN)"

fun fl_div :: "fl \<Rightarrow> fl \<Rightarrow> fl" where
  "fl_div NaN _ = NaN"
| "fl_div _ NaN = NaN"
| "fl_div (Val a) (Val b) = fdiv a b"
| "fl_div (Val a) _ = Val 0"
| "fl_div PosInf (Val b) = (if 0 \<le> b then PosInf else NegInf)"
| "fl_div NegInf (Val b) = (if 0 \<le> b then NegInf else PosInf)"
| "fl_div _ _ = NaN"

fun fl_mul :: "fl \<Rightarrow> fl \<Rightarrow> fl" where
  "fl_mul NaN _ = NaN"
| "fl_mul _ NaN = NaN"
| "fl_mul (Val a) (Val b) = Val (a * b)"
| "fl_mul (Val a) PosInf = (if a = 0 then NaN else if 0 < a then PosInf else NegInf)"
| "fl_mul (Val a) NegInf = (if a = 0 then NaN else if 0 < a then NegInf else PosInf)"
| "fl_mul PosInf (Val b) = (if b = 0 then NaN else if 0 < b then PosInf else NegInf)"
| "fl_mul NegInf (Val b) = (if b = 0 then NaN else if 0 < b then NegInf else PosInf)"
| "fl_mul PosInf PosInf = PosInf"
| "fl_mul NegInf NegInf = PosInf"
| "fl_mul _ _ = NegInf"

fun fl_add :: "fl \<Rightarrow> fl \<Rightarrow> fl" where
  "fl_add NaN _ = NaN"
| "fl_add _ NaN = NaN"
| "fl_add (Val a) (Val b) = Val (a + b)"
| "fl_add PosInf NegInf = NaN"
| "fl_add NegInf PosInf = NaN"
| "fl_add PosInf _ = PosInf"
| "fl_add NegInf _ = NegInf"
| "fl_add (Val a) x = x"

text \<open>\<open>x > y\<close> for a reading \<open>x\<close> and a float \<open>y\<close>: false against not-a-number.\<close>

fun gt_fl :: "real \<Rightarrow> fl \<Rightarrow> bool" where
  "gt_fl x (Val y) = (y < x)"
| "gt_fl x NegInf = True"
| "gt_fl x _ = False"

subsection \<open>Series operations of pandas used by the program\<close>

text \<open>\<^verbatim>\<open>Series.dropna()\<close>: the readings that are present, in their order.\<close>

fun dropna :: "real option list \<Rightarrow> real list" where
  "dropna [] = []"
| "dropna (None # qs) = dropna qs"
| "dropna (Some x # qs) = x # dropna qs"

text \<open>\<^verbatim>\<open>Series.isna().sum()\<close>: the number of missing entries.\<close>

definition isna_sum :: "real option list \<Rightarrow> nat" where
  "isna_sum qs = length (filter (\<lambda>q. q = None) qs)"

text \<open>\<^verbatim>\<open>Series.sum()\<close> skips missing entries; the sum of nothing is 0.\<close>

definition Series_sum :: "real option list \<Rightarrow> real" where
  "Series_sum qs = sum_list (dropna qs)"

text \<open>\<^verbatim>\<open>Series.mean()\<close> skips missing entries; the mean of nothing is not-a-number.\<close>

definition Series_mean :: "real option list \<Rightarrow> fl" where
  "Series_mean qs =
     (let d = dropna qs in if d = [] then NaN else Val (sum_list d / real (length d)))"

text \<open>\<^verbatim>\<open>Series.max()\<close> and \<^verbatim>\<open>Series.min()\<close> skip missing entries.\<close>

definition Series_max :: "real option list \<Rightarrow> fl" where
  "Series_max qs = (case dropna qs of [] \<Rightarrow> NaN | x # xs \<Rightarrow> Val (fold max xs x))"

definition Series_min :: "real option list \<Rightarrow> fl" where
  "Series_min qs = (case dropna qs of [] \<Rightarrow> NaN | x # xs \<Rightarrow> Val (fold min xs x))"

text \<open>\<^verbatim>\<open>Series.median()\<close>: the middle of the sorted present readings, the mean of the
  two middle ones when their number is even.\<close>

definition Series_median :: "real option list \<Rightarrow> fl" where
  "Series_median qs =
     (let s = sort (dropna qs); n = length s in
      if n = 0 then NaN
      else if odd n then Val (s ! (n div 2))
      else Val ((s ! (n div 2 - 1) + s ! (n div 2)) / 2))"

text \<open>\<^verbatim>\<open>Series.std()\<close>: the sample standard deviation (divisor \<open>n - 1\<close>) of the present
  readings; not-a-number for fewer than two readings.\<close>

definition Series_std :: "real option list \<Rightarrow> fl" where
  "Series_std qs =
     (let d = dropna qs; n = length d in
      if n < 2 then NaN
      else (let m = sum_list d / real n in
            Val (sqrt (sum_list (map (\<lambda>x. (x - m)\<^sup>2) d) / real (n - 1)))))"

text \<open>\<^verbatim>\<open>Series.diff()\<close>: each entry minus the one before it; the first entry has no
  predecessor and is missing, and so is a difference with a missing operand.\<close>

fun sub_opt :: "real option \<Rightarrow> real option \<Rightarrow> real option" where
  "sub_opt (Some a) (Some b) = Some (a - b)"
| "sub_opt _ _ = None"

fun diff_from :: "real option \<Rightarrow> real option list \<Rightarrow> real option list" where
  "diff_from p [] = []"
| "diff_from p (q # qs) = sub_opt q p # diff_from q qs"

definition Series_diff :: "real option list \<Rightarrow> real option list" where
  "Series_diff qs = diff_from None qs"

definition Series_abs :: "real option list \<Rightarrow> real option list" where
  "Series_abs qs = map (map_option abs) qs"

text \<open>\<^verbatim>\<open>Series.rolling(7).mean()\<close>: at position \<open>i\<close> the mean of the seven entries ending
  at \<open>i\<close>; missing where fewer than seven entries are in the window, or one of them is
  missing.\<close>

definition window_mean :: "real option list \<Rightarrow> real option" where
  "window_mean w =
     (if length w = 7 \<and> length (dropna w) = 7 then Some (sum_list (dropna w) / 7) else None)"

definition rolling7_mean :: "real option list \<Rightarrow> real option list" where
  "rolling7_mean qs =
     map (\<lambda>i. if i + 1 < 7 then None else window_mean (take 7 (drop (i + 1 - 7) qs)))
         [0..<length qs]"

subsection \<open>The observation record and the series\<close>

text \<open>A calendar date as (year, month, day), ordered lexicographically.\<close>

type_synonym date = "int \<times> nat \<times> nat"

record observation =
  agency_cd :: string
  site_no :: int
  Date :: date
  Discharge :: "real option"
  Quality :: string

text \<open>
  An error result, so that failing with \<open>InvalidRange\<close> and returning a value are
  different results of a function: \<open>Inl\<close> is a raised error, \<open>Inr\<close> a returned value.
\<close>

datatype error = InvalidRange

subsection \<open>ReadData\<close>

text \<open>
  \<^verbatim>\<open>ReadData\<close> from the rows that \<^verbatim>\<open>read_csv\<close> has parsed (parsing the station file is the
  library's work): the missing discharges are counted first, then each negative discharge
  is overwritten with the missing marker. A comparison with a missing entry is false.
\<close>

definition scrub :: "observation \<Rightarrow> observation" where
  "scrub ob =
     (case Discharge ob of
        Some v \<Rightarrow> if v < 0 then ob\<lparr>Discharge := None\<rparr> else ob
      | None \<Rightarrow> ob)"

definition ReadData :: "observation list \<Rightarrow> observation list \<times> nat" where
  "ReadData rows =
     (let MissingValues = isna_sum (map Discharge rows);
          DataDF = map scrub rows
      in (DataDF, MissingValues))"

subsection \<open>ClipData\<close>

text \<open>
  \<^verbatim>\<open>DataDF.loc[startDate:endDate]\<close> is a label slice on the date index, which
  \<^verbatim>\<open>ReadData\<close> leaves in the increasing order of the station file. On an increasing
  index pandas finds the two ends by bisection (left of the first label not below
  \<open>startDate\<close>, right of the last label not above \<open>endDate\<close>) and takes the positions
  between them; a slice whose left end is past its right end is empty. The function
  has no \<^verbatim>\<open>raise\<close> and no check of its two dates, so every result is a returned value.
\<close>

definition bisect_left :: "date list \<Rightarrow> date \<Rightarrow> nat" where
  "bisect_left ds s = length (takeWhile (\<lambda>d. d < s) ds)"

definition bisect_right :: "date list \<Rightarrow> date \<Rightarrow> nat" where
  "bisect_right ds e = length (takeWhile (\<lambda>d. d \<le> e) ds)"

definition loc_slice :: "observation list \<Rightarrow> date \<Rightarrow> date \<Rightarrow> observation list" where
  "loc_slice df s e =
     (let lo = bisect_left (map Date df) s; hi = bisect_right (map Date df) e
      in take (hi - lo) (drop lo df))"

definition ClipData ::
  "observation list \<Rightarrow> date \<Rightarrow> date \<Rightarrow> error + (observation list \<times> nat)" where
  "ClipData df startDate endDate =
     (let DataDF = loc_slice df startDate endDate;
          MissingValues = isna_sum (map Discharge DataDF)
      in Inr (DataDF, MissingValues))"

subsection \<open>The mean as float64 computes it\<close>

text \<open>
  A float64 operation returns the exact result rounded to the nearest number with a
  significand of 53 bits, a tie going to the even significand. \<open>round_f64\<close> is that
  rounding for a result of normal magnitude (overflow and subnormal results are not
  modelled).
\<close>

definition rne :: "real \<Rightarrow> int" where
  "rne x =
     (let f = \<lfloor>x\<rfloor>; r = x - of_int f in
      if r < 1 / 2 then f
      else if 1 / 2 < r then f + 1
      else if even f then f else f + 1)"

definition round_f64 :: "real \<Rightarrow> real" where
  "round_f64 x =
     (if x = 0 then 0
      else (let e = \<lfloor>log 2 \<bar>x\<bar>\<rfloor> - 52 in
            of_int (rne (x / 2 powr of_int e)) * 2 powr of_int e))"

text \<open>
  The float64 mean of a series without missing entries, the readings added one after
  the other in index order, each addition and the final division rounded. numpy adds
  a series of fewer than eight entries in this order; it adds a longer series in blocks,
  with the same sum whenever no addition rounds, as for a series of small integers.
\<close>

definition mean_f64 :: "real list \<Rightarrow> fl" where
  "mean_f64 d =
     (if d = [] then NaN
      else Val (round_f64 (foldl (\<lambda>s x. round_f64 (s + x)) 0 d / real (length d))))"

subsection \<open>The metric calculators\<close>

text \<open>
  \<open>CalcTqmean\<close> compares every reading with \<^verbatim>\<open>data_q.mean()\<close>, a float64 result, so one
  rounding step of the mean can decide a comparison. The order in which the library adds
  the readings of a long series is its own matter, not the program's: the computed mean
  is the parameter \<open>fmean\<close> of the calculator and of the two tables that have a
  \<open>Tqmean\<close> column. It is applied to the filtered series.
\<close>

definition CalcTqmean :: "(real list \<Rightarrow> fl) \<Rightarrow> real option list \<Rightarrow> fl" where
  "CalcTqmean fmean Qvalues =
     (let data_q = dropna Qvalues;
          m = fmean data_q
      in fdiv (real (length (filter (\<lambda>x. gt_fl x m) data_q))) (real (length data_q)))"

definition CalcRBindex :: "real option list \<Rightarrow> fl" where
  "CalcRBindex Qvalues =
     (let data_q = map Some (dropna Qvalues);
          diff = Series_diff data_q;
          Total_abs = Series_sum (Series_abs diff);
          Total_discharge = Series_sum Qvalues
      in fdiv Total_abs Total_discharge)"

definition Calc7Q :: "real option list \<Rightarrow> fl" where
  "Calc7Q Qvalues =
     (let data_q = map Some (dropna Qvalues)
      in Series_min (rolling7_mean data_q))"

text \<open>The count is an integer, stored as a number in the table column.\<close>

definition CalcExceed3TimesMedian :: "real option list \<Rightarrow> fl" where
  "CalcExceed3TimesMedian Qvalues =
     (let data_q = dropna Qvalues;
          thr = fl_mul (Series_median (map Some data_q)) (Val 3)
      in Val (real (length (filter (\<lambda>x. gt_fl x thr) data_q))))"

subsection \<open>Aggregates of one period\<close>

text \<open>
  \<^verbatim>\<open>scipy.stats.skew\<close> (biased, \<^verbatim>\<open>nan_policy='propagate'\<close>) is applied to the period's series
  as it is: one missing entry makes the result not-a-number, and so does an empty period.
  The skewness is \<open>m3 / m2 ** 1.5\<close> for the central moments \<open>m2\<close>, \<open>m3\<close>. Where the
  data have no spread, \<open>m2 <= (resolution * mean) ** 2\<close> with the float64 resolution
  \<open>1e-15\<close>, the result is not-a-number (scipy 1.11; releases of the time of the script
  returned 0 for \<open>m2 == 0\<close>).
\<close>

definition skew :: "real option list \<Rightarrow> fl" where
  "skew a =
     (if None \<in> set a then NaN
      else (let d = dropna a; n = length d in
            if n = 0 then NaN
            else (let m = sum_list d / real n;
                      m2 = sum_list (map (\<lambda>x. (x - m)\<^sup>2) d) / real n;
                      m3 = sum_list (map (\<lambda>x. (x - m) ^ 3) d) / real n
                  in if m2 \<le> (m / 10 ^ 15)\<^sup>2 then NaN else Val (m3 / (m2 * sqrt m2)))))"

definition CoeffVar :: "real option list \<Rightarrow> fl" where
  "CoeffVar qs = fl_mul (fl_div (Series_std qs) (Series_mean qs)) (Val 100)"

subsection \<open>Tables\<close>

text \<open>A \<^verbatim>\<open>DataFrame\<close> of numbers: the index labels and the named columns, in order.\<close>

type_synonym 'i frame = "'i list \<times> (string \<times> fl list) list"

text \<open>
  \<^verbatim>\<open>resample('AS-OCT')\<close> cuts the series into the years that start on October 1 and
  \<^verbatim>\<open>resample('MS')\<close> into calendar months: one bin for every such period from that of
  the first row to that of the last, labelled by its first day, empty bins included.
\<close>

definition wateryear :: "date \<Rightarrow> int" where
  "wateryear d = (case d of (y, m, _) \<Rightarrow> if 10 \<le> m then y else y - 1)"

definition resample_AS_OCT :: "observation list \<Rightarrow> (date \<times> observation list) list" where
  "resample_AS_OCT df =
     (if df = [] then []
      else map (\<lambda>k. ((k, 10, 1), filter (\<lambda>ob. wateryear (Date ob) = k) df))
               [wateryear (Date (hd df)) .. wateryear (Date (last df))])"

definition monthindex :: "date \<Rightarrow> int" where
  "monthindex d = (case d of (y, m, _) \<Rightarrow> y * 12 + int m - 1)"

definition resample_MS :: "observation list \<Rightarrow> (date \<times> observation list) list" where
  "resample_MS df =
     (if df = [] then []
      else map (\<lambda>k. ((k div 12, nat (k mod 12) + 1, 1), filter (\<lambda>ob. monthindex (Date ob) = k) df))
               [monthindex (Date (hd df)) .. monthindex (Date (last df))])"

definition site_column :: "observation list \<Rightarrow> real option list" where
  "site_column g = map (\<lambda>ob. Some (real_of_int (site_no ob))) g"

definition GetAnnualStatistics :: "(real list \<Rightarrow> fl) \<Rightarrow> observation list \<Rightarrow> date frame" where
  "GetAnnualStatistics fmean DataDF =
     (let groups = resample_AS_OCT DataDF;
          apply = (\<lambda>f. map (\<lambda>g. f (map Discharge (snd g))) groups)
      in (map fst groups,
          [(''site_no'', map (\<lambda>g. Series_mean (site_column (snd g))) groups),
           (''Mean Flow'', apply Series_mean),
           (''Peak Flow'', apply Series_max),
           (''Median Flow'', apply Series_median),
           (''Coeff Var'', apply CoeffVar),
           (''Skew'', apply skew),
           (''Tqmean'', apply (CalcTqmean fmean)),
           (''R-B Index'', apply CalcRBindex),
           (''7Q'', apply Calc7Q),
           (''3xMedian'', apply CalcExceed3TimesMedian)]))"

definition GetMonthlyStatistics :: "(real list \<Rightarrow> fl) \<Rightarrow> observation list \<Rightarrow> date frame" where
  "GetMonthlyStatistics fmean DataDF =
     (let groups = resample_MS DataDF;
          apply = (\<lambda>f. map (\<lambda>g. f (map Discharge (snd g))) groups)
      in (map fst groups,
          [(''site_no'', map (\<lambda>g. Series_mean (site_column (snd g))) groups),
           (''Mean Flow'', apply Series_mean),
           (''Coeff Var'', apply CoeffVar),
           (''Tqmean'', apply (CalcTqmean fmean)),
           (''R-B Index'', apply CalcRBindex)]))"

text \<open>The mean of a table column leaves out its not-a-number cells; the mean of no cell
  is not-a-number.\<close>

definition column_mean :: "fl list \<Rightarrow> fl" where
  "column_mean col =
     (let vs = filter (\<lambda>v. v \<noteq> NaN) col in
      if vs = [] then NaN else fl_div (foldl fl_add (Val 0) vs) (Val (real (length vs))))"

definition GetAnnualAverages :: "'i frame \<Rightarrow> (string \<times> fl) list" where
  "GetAnnualAverages WYDataDF = map (\<lambda>c. (fst c, column_mean (snd c))) (snd WYDataDF)"

text \<open>\<^verbatim>\<open>groupby\<close> on the month number of the index: one group for each month number that
  occurs, the groups in increasing order of their key.\<close>

definition month_of :: "date \<Rightarrow> nat" where
  "month_of d = fst (snd d)"

definition group_rows :: "date list \<Rightarrow> nat \<Rightarrow> fl list \<Rightarrow> fl list" where
  "group_rows idx k col = map snd (filter (\<lambda>r. month_of (fst r) = k) (zip idx col))"

definition GetMonthlyAverages :: "date frame \<Rightarrow> nat frame" where
  "GetMonthlyAverages MoDataDF =
     (let idx = fst MoDataDF;
          keys = sort (remdups (map month_of idx))
      in (keys,
          map (\<lambda>c. (fst c, map (\<lambda>k. column_mean (group_rows idx k (snd c))) keys))
              (snd MoDataDF)))"

subsection \<open>The metrics as the specification words them\<close>

text \<open>The sum of the absolute differences of consecutive entries.\<close>

fun pathlength :: "real list \<Rightarrow> real" where
  "pathlength (x # y # zs) = \<bar>y - x\<bar> + pathlength (y # zs)"
| "pathlength _ = 0"

text \<open>The sum of a sub-sequence in which a missing entry counts as zero.\<close>

definition sum_missing_zero :: "real option list \<Rightarrow> real" where
  "sum_missing_zero qs = sum_list (map (\<lambda>q. case q of None \<Rightarrow> 0 | Some v \<Rightarrow> v) qs)"

text \<open>The averages of all windows of seven consecutive entries.\<close>

definition window_averages :: "real list \<Rightarrow> real set" where
  "window_averages d = {sum_list (take 7 (drop k d)) / 7 | k. k + 7 \<le> length d}"


subsection \<open>Example records\<close>

text \<open>A row of the Wildcat Creek station file, and the scenarios of the specification.\<close>

definition reading :: "date \<Rightarrow> real option \<Rightarrow> observation" where
  "reading d q =
     \<lparr>agency_cd = ''USGS'', site_no = 3335000, Date = d, Discharge = q, Quality = ''A''\<rparr>"


definition scenario_B :: "observation list" where
  "scenario_B =
     [reading (2000, 1, 1) (Some (- 5)), reading (2000, 1, 2) (Some 3),
      reading (2000, 1, 3) (Some 4)]"

definition scenario_C :: "real option list" where
  "scenario_C = [Some 1, None, Some 2, Some 3, None, Some 4, Some 5]"

definition scenario_D :: "real option list" where
  "scenario_D = [Some 10, Some 10, Some 10, Some 10]"


text \<open>Eight days with no flow on the first and the last day.\<close>

definition edge_lows :: "real option list" where
  "edge_lows = [Some 0, Some 100, Some 100, Some 100, Some 100, Some 100, Some 100, Some 0]"

text \<open>Seven days of readings.\<close>

definition one_week :: "real option list" where
  "one_week = [Some 3, Some 1, Some 4, Some 1, Some 5, Some 9, Some 2]"

text \<open>A monthly table over thirteen months: January occurs in two years.\<close>

definition twelve_months :: "date frame" where
  "twelve_months =
     (map (\<lambda>m. (2001, m, 1)) [1..<13] @ [(2002, 1, 1)],
      [(''Mean Flow'', map Val [1, 2, 3, 4, 5, 6, 7, 8, 9, 10, 11, 12, 3])])"

section \<open>Properties\<close>

subsection \<open>Label slices of an increasing index\<close>

lemma takeWhile_le_sorted:
  "sorted (map f xs) \<Longrightarrow> takeWhile (\<lambda>x. f x \<le> e) xs = filter (\<lambda>x. f x \<le> (e::'a::linorder)) xs"
proof (induction xs)
  case Nil
  then show ?case by simp
next
  case (Cons x xs)
  show ?case
  proof (cases "f x \<le> e")
    case True
    with Cons show ?thesis by simp
  next
    case False
    with Cons.prems have "\<forall>y\<in>set xs. \<not> f y \<le> e" by auto
    then have "filter (\<lambda>x. f x \<le> e) xs = []" by (simp add: filter_empty_conv)
    with False show ?thesis by simp
  qed
qed

lemma slice_sorted:
  "sorted (map f xs) \<Longrightarrow>
   take (length (takeWhile (\<lambda>x. f x \<le> e) xs) - length (takeWhile (\<lambda>x. f x < s) xs))
        (drop (length (takeWhile (\<lambda>x. f x < s) xs)) xs)
   = filter (\<lambda>x. s \<le> f x \<and> f x \<le> (e::'a::linorder)) xs"
proof (induction xs)
  case Nil
  then show ?case by simp
next
  case (Cons x xs)
  have srt: "sorted (map f xs)" and ge: "\<forall>y\<in>set xs. f x \<le> f y"
    using Cons.prems by auto
  show ?case
  proof (cases "f x < s")
    case low: True
    show ?thesis
    proof (cases "f x \<le> e")
      case True
      with low Cons.IH [OF srt] show ?thesis by simp
    next
      case False
      with ge have "\<forall>y\<in>set xs. \<not> f y \<le> e" by auto
      then have "filter (\<lambda>x. s \<le> f x \<and> f x \<le> e) xs = []" by (simp add: filter_empty_conv)
      with False low show ?thesis by simp
    qed
  next
    case False
    with ge have all: "\<forall>y\<in>set (x # xs). s \<le> f y" by auto
    have "filter (\<lambda>x. s \<le> f x \<and> f x \<le> e) (x # xs) = filter (\<lambda>x. f x \<le> e) (x # xs)"
      using all by (intro filter_cong) auto
    also have "\<dots> = takeWhile (\<lambda>x. f x \<le> e) (x # xs)"
      using takeWhile_le_sorted [OF Cons.prems, of e] by simp
    finally have flt: "filter (\<lambda>x. s \<le> f x \<and> f x \<le> e) (x # xs) = takeWhile (\<lambda>x. f x \<le> e) (x # xs)" .
    have lo: "length (takeWhile (\<lambda>x. f x < s) (x # xs)) = 0" using False by simp
    show ?thesis unfolding lo flt by (simp only: minus_nat.diff_0 drop_0 takeWhile_eq_take [symmetric])
  qed
qed

lemma loc_slice_filter:
  "sorted (map Date df) \<Longrightarrow> loc_slice df s e = filter (\<lambda>ob. s \<le> Date ob \<and> Date ob \<le> e) df"
  using slice_sorted [of Date df e s]
  by (simp add: loc_slice_def bisect_left_def bisect_right_def takeWhile_map comp_def)

subsection \<open>ClipData\<close>

text \<open>
  Claim C7. For a series whose dates increase and a pair of dates \<open>s \<le> e\<close>, \<open>ClipData\<close>
  returns exactly the observations whose date lies in \<open>[s, e]\<close>, both ends included, in
  their original order, together with the number of missing discharges among them.
\<close>

theorem ClipData_inclusive_range:
  assumes "sorted (map Date df)" and "s \<le> e"
  shows "ClipData df s e =
    Inr (filter (\<lambda>ob. s \<le> Date ob \<and> Date ob \<le> e) df,
         length (filter (\<lambda>ob. s \<le> Date ob \<and> Date ob \<le> e \<and> Discharge ob = None) df))"
  using assms(1)
  by (simp add: ClipData_def loc_slice_filter isna_sum_def filter_map comp_def
      conj_commute conj_left_commute)

theorem ClipData_inclusive_range_witness:
  "sorted (map Date (map scrub scenario_B)) \<and> ((2000, 1, 1) :: date) \<le> (2000, 1, 2)
   \<and> ClipData (map scrub scenario_B) (2000, 1, 1) (2000, 1, 2) =
       Inr ([reading (2000, 1, 1) None, reading (2000, 1, 2) (Some 3)], 1)"
proof -
  have h1: "sorted (map Date (map scrub scenario_B))"
    by (simp add: scenario_B_def reading_def scrub_def)
  have h2: "((2000, 1, 1) :: date) \<le> (2000, 1, 2)" by simp
  show ?thesis using ClipData_inclusive_range [OF h1 h2] h1
    by (simp add: scenario_B_def reading_def scrub_def)
qed

text \<open>
  Claim C1, as stated, fails: with \<open>startDate\<close> after \<open>endDate\<close> the function returns
  an empty series and the count 0; it does not fail with \<open>InvalidRange\<close>.
\<close>

theorem ClipData_reversed_range_counterexample:
  "ClipData scenario_B (2000, 1, 3) (2000, 1, 1) = Inr ([], 0)
   \<and> ClipData scenario_B (2000, 1, 3) (2000, 1, 1) \<noteq> Inl InvalidRange"
  by (simp add: ClipData_def loc_slice_def bisect_left_def bisect_right_def
        scenario_B_def reading_def isna_sum_def)

text \<open>
  Claim C1, amended. For a series whose dates increase and a pair of dates with
  \<open>startDate\<close> after \<open>endDate\<close>, \<open>ClipData\<close> returns the empty series and the missing
  count 0.
\<close>

theorem ClipData_reversed_range_empty:
  assumes "sorted (map Date df)" and "e < s"
  shows "ClipData df s e = Inr ([], 0)"
proof -
  have "filter (\<lambda>ob. s \<le> Date ob \<and> Date ob \<le> e) df = []"
    using assms(2) by (auto simp: filter_empty_conv)
  then show ?thesis using assms(1)
    by (simp add: ClipData_def loc_slice_filter isna_sum_def)
qed

theorem ClipData_reversed_range_empty_witness:
  "sorted (map Date scenario_B) \<and> ((2000, 1, 1) :: date) < (2000, 1, 3)
   \<and> ClipData scenario_B (2000, 1, 3) (2000, 1, 1) = Inr ([], 0)"
proof -
  have h1: "sorted (map Date scenario_B)"
    by (simp add: scenario_B_def reading_def)
  have h2: "((2000, 1, 1) :: date) < (2000, 1, 3)" by simp
  show ?thesis using ClipData_reversed_range_empty [OF h1 h2] h1 h2 by simp
qed

subsection \<open>ReadData\<close>

lemma Discharge_scrub:
  "Discharge (scrub ob) =
     (case Discharge ob of None \<Rightarrow> None | Some v \<Rightarrow> if v < 0 then None else Some v)"
  by (simp add: scrub_def split: option.splits)

lemma isna_scrub:
  "isna_sum (map (\<lambda>ob. Discharge (scrub ob)) rows) =
   isna_sum (map Discharge rows)
     + length (filter (\<lambda>ob. \<exists>v. Discharge ob = Some v \<and> v < 0) rows)"
  by (induction rows) (auto simp: isna_sum_def Discharge_scrub split: option.splits)

text \<open>
  Claim C3. \<open>ReadData\<close> counts the entries that are missing in the raw rows; the negative
  discharges are then rewritten to missing and are not part of that count (the cleaned
  series has that many more missing entries). For the raw discharges \<open>[-5, 3, 4]\<close> the
  cleaned series is \<open>[missing, 3, 4]\<close>, the count at ingestion is 0, and clipping to the
  whole range counts 1 missing entry.
\<close>

theorem ReadData_counts_before_scrubbing:
  "snd (ReadData rows) = length (filter (\<lambda>ob. Discharge ob = None) rows)
   \<and> map Discharge (fst (ReadData rows)) =
       map (\<lambda>ob. case Discharge ob of None \<Rightarrow> None
                  | Some v \<Rightarrow> if v < 0 then None else Some v) rows
   \<and> isna_sum (map Discharge (fst (ReadData rows))) =
       snd (ReadData rows)
         + length (filter (\<lambda>ob. \<exists>v. Discharge ob = Some v \<and> v < 0) rows)
   \<and> map Discharge (fst (ReadData scenario_B)) = [None, Some 3, Some 4]
   \<and> snd (ReadData scenario_B) = 0
   \<and> ClipData (fst (ReadData scenario_B)) (2000, 1, 1) (2000, 1, 3) =
       Inr (fst (ReadData scenario_B), 1)"
proof -
  have a: "snd (ReadData rows) = length (filter (\<lambda>ob. Discharge ob = None) rows)"
    by (simp add: ReadData_def isna_sum_def filter_map comp_def)
  have b: "map Discharge (fst (ReadData rows)) =
       map (\<lambda>ob. case Discharge ob of None \<Rightarrow> None
                  | Some v \<Rightarrow> if v < 0 then None else Some v) rows"
    by (simp add: ReadData_def Discharge_scrub)
  have c: "isna_sum (map Discharge (fst (ReadData rows))) =
       snd (ReadData rows)
         + length (filter (\<lambda>ob. \<exists>v. Discharge ob = Some v \<and> v < 0) rows)"
    using isna_scrub [of rows] by (simp add: ReadData_def comp_def)
  have d: "map Discharge (fst (ReadData scenario_B)) = [None, Some 3, Some 4]"
    by (simp add: ReadData_def scenario_B_def reading_def scrub_def)
  have e: "snd (ReadData scenario_B) = 0"
    by (simp add: ReadData_def scenario_B_def reading_def isna_sum_def)
  have f: "ClipData (fst (ReadData scenario_B)) (2000, 1, 1) (2000, 1, 3) =
     Inr (fst (ReadData scenario_B), 1)"
    by (simp add: ClipData_def loc_slice_def bisect_left_def bisect_right_def ReadData_def
        scenario_B_def reading_def scrub_def isna_sum_def)
  show ?thesis by (intro conjI) (fact a b c d e f)+
qed

subsection \<open>The filtered series\<close>

lemma dropna_map_Some [simp]: "dropna (map Some d) = d"
  by (induction d) auto

lemma set_dropna: "set (dropna qs) = {x. Some x \<in> set qs}"
  by (induction qs rule: dropna.induct) auto

lemma dropna_Nil_cases: "dropna qs = [] \<Longrightarrow> None \<in> set qs \<or> qs = []"
  by (cases qs rule: dropna.cases) auto

subsection \<open>Float64 rounding at concrete values\<close>


























subsection \<open>CalcTqmean\<close>




subsection \<open>CalcRBindex\<close>

lemma Series_sum_missing_zero: "Series_sum qs = sum_missing_zero qs"
  by (induction qs rule: dropna.induct) (auto simp: Series_sum_def sum_missing_zero_def)

lemma abs_diff_from:
  "sum_list (dropna (map (map_option abs) (diff_from (Some p) (map Some d)))) =
   pathlength (p # d)"
  by (induction d arbitrary: p) auto

lemma abs_diff_pathlength: "Series_sum (Series_abs (Series_diff (map Some d))) = pathlength d"
proof (cases d)
  case Nil
  then show ?thesis by (simp add: Series_sum_def Series_abs_def Series_diff_def)
next
  case (Cons x xs)
  then show ?thesis
    using abs_diff_from [of x xs]
    by (simp add: Series_sum_def Series_abs_def Series_diff_def)
qed

lemma pathlength_nonneg: "0 \<le> pathlength d"
  by (induction d rule: pathlength.induct) auto

text \<open>
  Claim C4. \<open>CalcRBindex\<close> returns the sum of the absolute differences of consecutive
  entries of the filtered sub-sequence, divided by the sum of the sub-sequence in which a
  missing entry counts as zero (where that sum is zero the float division gives
  not-a-number for a zero numerator and infinity otherwise). The differences are between
  consecutive filtered entries: a missing day between two readings leaves one step from
  the first to the second. For the constant sequence \<open>[10, 10, 10, 10]\<close> the result is 0.
\<close>

theorem CalcRBindex_pathlength_over_sum:
  "CalcRBindex qs =
     (if sum_missing_zero qs = 0
      then (if pathlength (dropna qs) = 0 then NaN else PosInf)
      else Val (pathlength (dropna qs) / sum_missing_zero qs))
   \<and> CalcRBindex [Some a, None, Some b] =
       (if a + b = 0 then (if a = b then NaN else PosInf) else Val (\<bar>b - a\<bar> / (a + b)))
   \<and> CalcRBindex [Some 1, None, Some 4, Some 2] = Val (5 / 7)
   \<and> CalcRBindex [Some 2, Some 6, None, Some 1] = Val 1
   \<and> CalcRBindex scenario_D = Val 0"
proof -
  have g: "CalcRBindex qs = fdiv (pathlength (dropna qs)) (sum_missing_zero qs)" for qs
    by (simp add: CalcRBindex_def Let_def abs_diff_pathlength Series_sum_missing_zero [of qs])
  have q: "CalcRBindex qs =
     (if sum_missing_zero qs = 0
      then (if pathlength (dropna qs) = 0 then NaN else PosInf)
      else Val (pathlength (dropna qs) / sum_missing_zero qs))"
    using pathlength_nonneg [of "dropna qs"] by (auto simp: g fdiv_def)
  have m: "CalcRBindex [Some a, None, Some b] =
       (if a + b = 0 then (if a = b then NaN else PosInf) else Val (\<bar>b - a\<bar> / (a + b)))"
    by (auto simp: g sum_missing_zero_def fdiv_def)
  have e1: "CalcRBindex [Some 1, None, Some 4, Some 2] = Val (5 / 7)"
    by (simp add: g sum_missing_zero_def fdiv_def)
  have e2: "CalcRBindex [Some 2, Some 6, None, Some 1] = Val 1"
    by (simp add: g sum_missing_zero_def fdiv_def)
  have d: "CalcRBindex scenario_D = Val 0"
    by (simp add: g sum_missing_zero_def scenario_D_def fdiv_def)
  show ?thesis by (intro conjI) (fact q m e1 e2 d)+
qed

subsection \<open>Calc7Q\<close>

lemma Series_min_Min:
  "Series_min r = (if dropna r = [] then NaN else Val (Min (set (dropna r))))"
  by (cases "dropna r") (simp_all add: Series_min_def Min.set_eq_fold del: set_simps)

lemma window_mean_Some:
  "length w = 7 \<Longrightarrow> window_mean (map Some w) = Some (sum_list w / 7)"
  by (simp add: window_mean_def)

lemma rolling7_mean_Some:
  "rolling7_mean (map Some d) =
     map (\<lambda>i. if i + 1 < 7 then None else Some (sum_list (take 7 (drop (i + 1 - 7) d)) / 7))
         [0..<length d]"
  unfolding rolling7_mean_def
proof (rule map_cong [OF _ ], simp, goal_cases)
  case (1 i)
  then have i: "i < length d" by simp
  show ?case
  proof (cases "i + 1 < 7")
    case True
    then show ?thesis by simp
  next
    case False
    with i have "length (take 7 (drop (i + 1 - 7) d)) = 7" by simp
    from window_mean_Some [OF this] False show ?thesis
      by (simp add: take_map drop_map)
  qed
qed

lemma set_rolling: "set (dropna (rolling7_mean (map Some d))) = window_averages d"
proof -
  have "set (dropna (rolling7_mean (map Some d))) =
        {x. \<exists>i. i < length d \<and> \<not> i + 1 < 7 \<and> x = sum_list (take 7 (drop (i + 1 - 7) d)) / 7}"
    unfolding set_dropna rolling7_mean_Some by (auto split: if_splits)
  also have "\<dots> = window_averages d"
    unfolding window_averages_def
  proof (intro set_eqI iffI; clarify)
    fix i assume "i < length d" "\<not> i + 1 < 7"
    then have "i + 1 - 7 + 7 \<le> length d" by simp
    then show "\<exists>k. sum_list (take 7 (drop (i + 1 - 7) d)) / 7 = sum_list (take 7 (drop k d)) / 7 \<and> k + 7 \<le> length d"
      by blast
  next
    fix k assume "k + 7 \<le> length d"
    then have "k + 6 < length d \<and> \<not> k + 6 + 1 < 7 \<and> k + 6 + 1 - 7 = k" by simp
    then show "\<exists>i<length d. \<not> i + 1 < 7 \<and> sum_list (take 7 (drop k d)) / 7 = sum_list (take 7 (drop (i + 1 - 7) d)) / 7"
      by metis
  qed
  finally show ?thesis .
qed

lemma window_averages_empty: "window_averages d = {} \<longleftrightarrow> length d < 7"
proof
  assume e: "window_averages d = {}"
  show "length d < 7"
  proof (rule ccontr)
    assume "\<not> length d < 7"
    then have "0 + 7 \<le> length d" by simp
    then have "sum_list (take 7 (drop 0 d)) / 7 \<in> window_averages d"
      unfolding window_averages_def by blast
    with e show False by simp
  qed
next
  assume "length d < 7"
  then show "window_averages d = {}" by (auto simp: window_averages_def)
qed

lemma window_averages_finite: "finite (window_averages d)"
  using set_rolling [of d, symmetric] by simp

lemma Calc7Q_Min:
  "Calc7Q qs = (if length (dropna qs) < 7 then NaN else Val (Min (window_averages (dropna qs))))"
proof -
  have "dropna (rolling7_mean (map Some (dropna qs))) = [] \<longleftrightarrow> length (dropna qs) < 7"
    using set_rolling [of "dropna qs"] window_averages_empty [of "dropna qs"]
    by (metis set_empty)
  then show ?thesis
    by (simp add: Calc7Q_def Series_min_Min set_rolling)
qed

lemma sum_take_chunks:
  assumes "\<And>k. k + 7 \<le> length d \<Longrightarrow> q * 7 \<le> sum_list (take 7 (drop k d))"
  shows "7 * j \<le> length d \<Longrightarrow> q * real (7 * j) \<le> sum_list (take (7 * j) d)"
proof (induction j)
  case 0
  then show ?case by simp
next
  case (Suc j)
  then have 1: "q * real (7 * j) \<le> sum_list (take (7 * j) d)" by simp
  from Suc.prems have "7 * j + 7 \<le> length d" by simp
  from assms [OF this] have 2: "q * 7 \<le> sum_list (take 7 (drop (7 * j) d))" .
  have "take (7 * j + 7) d = take (7 * j) d @ take 7 (drop (7 * j) d)"
    by (rule take_add)
  moreover have "7 * Suc j = 7 * j + 7" by simp
  ultimately have "take (7 * Suc j) d = take (7 * j) d @ take 7 (drop (7 * j) d)"
    by (simp only:)
  then have "sum_list (take (7 * Suc j) d) = sum_list (take (7 * j) d) + sum_list (take 7 (drop (7 * j) d))"
    by simp
  with 1 2 show ?case by (simp add: algebra_simps)
qed

lemma Min_windows_chunks:
  assumes nn: "\<forall>x\<in>set d. 0 \<le> x" and len: "7 \<le> length d"
  shows "Min (window_averages d) * real (7 * (length d div 7)) \<le> sum_list d"
proof -
  let ?q = "Min (window_averages d)"
  have w: "?q * 7 \<le> sum_list (take 7 (drop k d))" if "k + 7 \<le> length d" for k
  proof -
    from that have "sum_list (take 7 (drop k d)) / 7 \<in> window_averages d"
      unfolding window_averages_def by blast
    then have "?q \<le> sum_list (take 7 (drop k d)) / 7"
      using window_averages_finite by (rule_tac Min_le)
    then show ?thesis by simp
  qed
  let ?j = "length d div 7"
  have "7 * ?j \<le> length d" by simp
  from sum_take_chunks [of d ?q ?j, OF w this]
  have 1: "?q * real (7 * ?j) \<le> sum_list (take (7 * ?j) d)" by simp
  have "\<forall>x\<in>set (drop (7 * ?j) d). 0 \<le> x" using nn by (meson in_set_dropD)
  then have 2: "0 \<le> sum_list (drop (7 * ?j) d)" by (simp add: sum_list_nonneg)
  have "sum_list d = sum_list (take (7 * ?j) d) + sum_list (drop (7 * ?j) d)"
    by (metis append_take_drop_id sum_list.append)
  with 1 2 show ?thesis by simp
qed

text \<open>
  Claim C5. \<open>Calc7Q\<close> returns the minimum, over all windows of seven consecutive entries
  of the filtered sub-sequence, of the window's average, and not-a-number when the
  filtered sub-sequence has fewer than seven entries, as in a period with five readings.
\<close>

theorem Calc7Q_min_window_average:
  "Calc7Q qs =
     (if length (dropna qs) < 7 then NaN else Val (Min (window_averages (dropna qs))))
   \<and> length (dropna scenario_C) = 5
   \<and> Calc7Q scenario_C = NaN"
proof -
  have a: "length (dropna scenario_C) = 5" by (simp add: scenario_C_def)
  have b: "Calc7Q scenario_C = NaN"
    by (simp add: Calc7Q_def scenario_C_def rolling7_mean_def window_mean_def
        Series_min_def upt_rec)
  show ?thesis using Calc7Q_Min [of qs] a b by (intro conjI)
qed

text \<open>
  Claim C8, as stated, fails: for the eight non-negative discharges
  \<open>0, 100, 100, 100, 100, 100, 100, 0\<close> both windows average \<open>600 / 7\<close>, about 85.7, and
  the mean flow is 75.
\<close>

theorem Calc7Q_above_mean_counterexample:
  "dropna edge_lows = [0, 100, 100, 100, 100, 100, 100, 0]
   \<and> Calc7Q edge_lows = Val (600 / 7)
   \<and> Series_mean edge_lows = Val 75
   \<and> \<not> (600 / 7 \<le> (75 :: real))"
proof -
  have a: "dropna edge_lows = [0, 100, 100, 100, 100, 100, 100, 0]"
    by (simp add: edge_lows_def)
  have b: "Calc7Q edge_lows = Val (600 / 7)"
    by (simp add: Calc7Q_def edge_lows_def rolling7_mean_def window_mean_def
        Series_min_def upt_rec)
  have c: "Series_mean edge_lows = Val 75"
    by (simp add: Series_mean_def edge_lows_def)
  have d: "\<not> (600 / 7 \<le> (75 :: real))" by simp
  show ?thesis using a b c d by (intro conjI)
qed

text \<open>
  Claim C8, amended. For a period whose discharges are non-negative and has \<open>n\<close>
  readings, whenever the 7Q value \<open>q\<close> and the mean flow \<open>m\<close> are both defined,
  \<open>q * 7 * (n div 7) \<le> m * n\<close>: the 7Q value is at most the mean flow scaled by
  \<open>n / (7 * (n div 7))\<close>. In particular 7Q is at most the mean flow when the number of
  readings is a multiple of seven.
\<close>

theorem Calc7Q_mean_bound:
  assumes "\<forall>x\<in>set (dropna qs). 0 \<le> x"
    and "Calc7Q qs = Val q" and "Series_mean qs = Val m"
  shows "q * real (7 * (length (dropna qs) div 7)) \<le> m * real (length (dropna qs))
         \<and> (7 dvd length (dropna qs) \<longrightarrow> q \<le> m)"
proof -
  let ?d = "dropna qs"
  from assms(2) have len: "7 \<le> length ?d" and q: "q = Min (window_averages ?d)"
    by (auto simp: Calc7Q_Min split: if_splits)
  have ne: "?d \<noteq> []"
  proof
    assume "?d = []"
    with len show False by simp
  qed
  with assms(3) have m: "m = sum_list ?d / real (length ?d)"
    by (simp add: Series_mean_def Let_def)
  from ne have pos: "0 < real (length ?d)" by simp
  then have mn: "m * real (length ?d) = sum_list ?d" using m by simp
  have b: "q * real (7 * (length ?d div 7)) \<le> m * real (length ?d)"
    using Min_windows_chunks [OF assms(1) len] q mn by simp
  have "q \<le> m" if "7 dvd length ?d"
  proof -
    from that have "7 * (length ?d div 7) = length ?d" by simp
    with b have "q * real (length ?d) \<le> m * real (length ?d)" by simp
    with pos show ?thesis by simp
  qed
  with b show ?thesis by blast
qed

theorem Calc7Q_mean_bound_witness:
  "dropna one_week = [3, 1, 4, 1, 5, 9, 2]
   \<and> Calc7Q one_week = Val (25 / 7) \<and> Series_mean one_week = Val (25 / 7)
   \<and> 7 dvd length (dropna one_week)
   \<and> (25 / 7 :: real) * real (7 * (length (dropna one_week) div 7))
       \<le> 25 / 7 * real (length (dropna one_week))
   \<and> (25 / 7 :: real) \<le> 25 / 7"
proof -
  have d: "dropna one_week = [3, 1, 4, 1, 5, 9, 2]" by (simp add: one_week_def)
  then have h1: "\<forall>x\<in>set (dropna one_week). 0 \<le> x" by simp
  have h2: "Calc7Q one_week = Val (25 / 7)"
    by (simp add: Calc7Q_def one_week_def rolling7_mean_def window_mean_def
        Series_min_def upt_rec)
  have h3: "Series_mean one_week = Val (25 / 7)"
    by (simp add: Series_mean_def one_week_def)
  have l: "length (dropna one_week) = 7" by (simp add: d)
  have h4: "7 dvd length (dropna one_week)" by (simp only: l dvd_refl)
  from Calc7Q_mean_bound [OF h1 h2 h3] have
    "(25 / 7 :: real) * real (7 * (length (dropna one_week) div 7))
       \<le> 25 / 7 * real (length (dropna one_week))"
    by (rule conjunct1)
  moreover have "(25 / 7 :: real) \<le> 25 / 7"
    using Calc7Q_mean_bound [OF h1 h2 h3] h4 by simp
  ultimately show ?thesis using d h2 h3 h4 by (intro conjI)
qed

subsection \<open>Empty and all-missing periods\<close>

text \<open>
  Claim C2, as stated, fails for \<open>CalcExceed3TimesMedian\<close>: on an empty and on an
  all-missing sub-sequence it returns the count 0, not not-a-number.
\<close>

theorem CalcExceed3TimesMedian_empty_counterexample:
  "CalcExceed3TimesMedian [] = Val 0 \<and> CalcExceed3TimesMedian [] \<noteq> NaN
   \<and> CalcExceed3TimesMedian [None, None] = Val 0
   \<and> CalcExceed3TimesMedian [None, None] \<noteq> NaN"
  by (simp add: CalcExceed3TimesMedian_def)

text \<open>
  Claim C2, amended. On an empty or all-missing sub-sequence \<open>CalcTqmean\<close>,
  \<open>CalcRBindex\<close>, \<open>Calc7Q\<close> and the mean, peak, median, coefficient-of-variation and
  skew aggregates return not-a-number, and \<open>CalcExceed3TimesMedian\<close> returns the count 0.
\<close>

theorem calculators_on_empty_period:
  assumes "dropna qs = []"
  shows "CalcTqmean fmean qs = NaN \<and> CalcRBindex qs = NaN \<and> Calc7Q qs = NaN
       \<and> Series_mean qs = NaN \<and> Series_max qs = NaN \<and> Series_median qs = NaN
       \<and> CoeffVar qs = NaN \<and> skew qs = NaN
       \<and> CalcExceed3TimesMedian qs = Val 0"
proof -
  have 1: "CalcTqmean fmean qs = NaN" using assms by (simp add: CalcTqmean_def fdiv_def)
  have 2: "CalcRBindex qs = NaN" using assms
    by (simp add: CalcRBindex_def Series_diff_def Series_abs_def Series_sum_def fdiv_def)
  have 3: "Calc7Q qs = NaN" using assms
    by (simp add: Calc7Q_def rolling7_mean_def Series_min_def)
  have 4: "Series_mean qs = NaN" using assms by (simp add: Series_mean_def)
  have 5: "Series_max qs = NaN" using assms by (simp add: Series_max_def)
  have 6: "Series_median qs = NaN" using assms by (simp add: Series_median_def)
  have 7: "CoeffVar qs = NaN" using assms by (simp add: CoeffVar_def Series_std_def)
  have 8: "skew qs = NaN" using dropna_Nil_cases [OF assms] assms by (auto simp: skew_def)
  have 9: "CalcExceed3TimesMedian qs = Val 0"
    using assms by (simp add: CalcExceed3TimesMedian_def)
  show ?thesis by (intro conjI) (fact 1 2 3 4 5 6 7 8 9)+
qed

theorem calculators_on_empty_period_witness:
  "dropna [None, None] = [] \<and> CalcTqmean mean_f64 [None, None] = NaN
   \<and> CalcRBindex [None, None] = NaN \<and> Calc7Q [None, None] = NaN
   \<and> skew [None, None] = NaN \<and> CalcExceed3TimesMedian [None, None] = Val 0"
proof -
  have h: "dropna [None, None] = []" by simp
  from calculators_on_empty_period [OF h, of mean_f64] h show ?thesis by simp
qed

subsection \<open>GetMonthlyAverages\<close>

lemma zip_nth_map:
  "zip xs ys = map (\<lambda>i. (xs ! i, ys ! i)) [0..<min (length xs) (length ys)]"
  by (rule nth_equalityI) auto

lemma group_rows_nth:
  "group_rows idx k col =
     map (\<lambda>i. col ! i)
         (filter (\<lambda>i. month_of (idx ! i) = k) [0..<min (length idx) (length col)])"
  by (simp add: group_rows_def zip_nth_map filter_map comp_def)

lemma twelve_months_index: "month_of ` set (fst twelve_months) = {1..12}"
proof -
  have u: "[1..<13] = [1, 2, 3, 4, 5, 6, 7, 8, 9, 10, 11, 12::nat]" by (simp add: upt_rec)
  then have "month_of ` set (fst twelve_months) = set [1, 2, 3, 4, 5, 6, 7, 8, 9, 10, 11, 12]"
    by (auto simp add: twelve_months_def month_of_def)
  also have "\<dots> = set [1..<13]" by (simp only: u)
  also have "\<dots> = {1..12}" by auto
  finally show ?thesis .
qed

text \<open>
  Claim C9, as stated, fails: the monthly table of a series that lies within January
  has one row, and so has its table of monthly averages.
\<close>

theorem GetMonthlyAverages_rows_counterexample:
  "fst (GetMonthlyStatistics mean_f64 scenario_B) = [(2000, 1, 1)]
   \<and> fst (GetMonthlyAverages (GetMonthlyStatistics mean_f64 scenario_B)) = [1]
   \<and> length (fst (GetMonthlyAverages (GetMonthlyStatistics mean_f64 scenario_B))) \<noteq> 12"
  by (simp add: GetMonthlyAverages_def GetMonthlyStatistics_def resample_MS_def scenario_B_def
      reading_def monthindex_def month_of_def Let_def)

text \<open>
  Claim C9, amended. \<open>GetMonthlyAverages\<close> groups the rows of the monthly table by the
  month number of their label, whatever the year, and returns one row for each month
  number that occurs in the table, in increasing order of the month number; each cell is
  the mean of its column over the rows of that month. The result has twelve rows, for
  the months 1 to 12, when all twelve month numbers occur in the table.
\<close>

theorem GetMonthlyAverages_one_row_per_month_present:
  "fst (GetMonthlyAverages (idx, cols)) = sorted_list_of_set (month_of ` set idx)
   \<and> length (fst (GetMonthlyAverages (idx, cols))) = card (month_of ` set idx)
   \<and> snd (GetMonthlyAverages (idx, cols)) =
       map (\<lambda>c. (fst c,
                 map (\<lambda>k. column_mean (map (\<lambda>i. snd c ! i)
                       (filter (\<lambda>i. month_of (idx ! i) = k)
                               [0..<min (length idx) (length (snd c))])))
                     (sorted_list_of_set (month_of ` set idx)))) cols
   \<and> (month_of ` set idx = {1..12} \<longrightarrow> fst (GetMonthlyAverages (idx, cols)) = [1..<13])"
proof -
  have k: "fst (GetMonthlyAverages (idx, cols)) = sorted_list_of_set (month_of ` set idx)"
    by (simp add: GetMonthlyAverages_def Let_def sorted_list_of_set_sort_remdups [symmetric])
  have l: "length (fst (GetMonthlyAverages (idx, cols))) = card (month_of ` set idx)"
    unfolding k by simp
  have c: "snd (GetMonthlyAverages (idx, cols)) =
       map (\<lambda>c. (fst c,
                 map (\<lambda>k. column_mean (map (\<lambda>i. snd c ! i)
                       (filter (\<lambda>i. month_of (idx ! i) = k)
                               [0..<min (length idx) (length (snd c))])))
                     (sorted_list_of_set (month_of ` set idx)))) cols"
    by (simp add: GetMonthlyAverages_def Let_def sorted_list_of_set_sort_remdups [symmetric]
        group_rows_nth)
  have t: "fst (GetMonthlyAverages (idx, cols)) = [1..<13]" if "month_of ` set idx = {1..12}"
  proof -
    have "{1..12::nat} = {1..<13}" by auto
    with that show ?thesis unfolding k by (simp only: sorted_list_of_set_range)
  qed
  show ?thesis using k l c t by (intro conjI impI)
qed

theorem GetMonthlyAverages_one_row_per_month_present_witness:
  "month_of ` set (fst twelve_months) = {1..12}
   \<and> fst (GetMonthlyAverages twelve_months) = [1..<13]
   \<and> snd (GetMonthlyAverages twelve_months) =
       [(''Mean Flow'', map Val [2, 2, 3, 4, 5, 6, 7, 8, 9, 10, 11, 12])]"
proof -
  have v: "snd (GetMonthlyAverages twelve_months) =
       [(''Mean Flow'', map Val [2, 2, 3, 4, 5, 6, 7, 8, 9, 10, 11, 12])]"
    by (simp add: GetMonthlyAverages_def twelve_months_def month_of_def Let_def upt_rec
        group_rows_def column_mean_def fdiv_def)
  have "fst (GetMonthlyAverages (fst twelve_months, snd twelve_months)) = [1..<13]"
    using GetMonthlyAverages_one_row_per_month_present
      [of "fst twelve_months" "snd twelve_months"] twelve_months_index
    by (elim conjE impE)
  then have k: "fst (GetMonthlyAverages twelve_months) = [1..<13]"
    by (simp only: prod.collapse)
  show ?thesis using twelve_months_index k v by (intro conjI)
qed

subsection \<open>GetAnnualAverages\<close>

lemma column_mean_skips: "column_mean col = column_mean (filter (\<lambda>v. v \<noteq> NaN) col)"
  by (simp add: column_mean_def)

lemma foldl_fl_add_Val: "foldl fl_add (Val a) (map Val xs) = Val (a + sum_list xs)"
  by (induction xs arbitrary: a) (auto simp: add.assoc)

lemma column_mean_Val:
  "xs \<noteq> [] \<Longrightarrow> column_mean (map Val xs) = Val (sum_list xs / real (length xs))"
  by (simp add: column_mean_def foldl_fl_add_Val fdiv_def filter_map comp_def)

lemma column_mean_defined:
  assumes "filter (\<lambda>v. v \<noteq> NaN) col = map Val xs" and "xs \<noteq> []"
  shows "column_mean col = Val (sum_list xs / real (length xs))"
  using column_mean_skips [of col] column_mean_Val [OF assms(2)] assms(1) by simp

lemma wateryear_mono: "d \<le> d' \<Longrightarrow> wateryear d \<le> wateryear d'"
  by (cases d; cases d') (auto simp: wateryear_def less_eq_prod_def split: if_splits)

lemma site_mean_const:
  assumes "\<forall>ob\<in>set g. site_no ob = c"
  shows "Series_mean (site_column g) = (if g = [] then NaN else Val (real_of_int c))"
proof -
  have d: "dropna (site_column g) = map (\<lambda>ob. real_of_int (site_no ob)) g"
    by (induction g) (auto simp: site_column_def)
  also have "\<dots> = replicate (length g) (real_of_int c)"
    using assms by (simp add: map_replicate_const [symmetric] cong: map_cong)
  finally have "dropna (site_column g) = replicate (length g) (real_of_int c)" .
  then show ?thesis
    by (simp add: Series_mean_def Let_def sum_list_replicate)
qed

lemma column_mean_const:
  assumes "\<forall>v\<in>set col. v = NaN \<or> v = Val c" and "Val c \<in> set col"
  shows "column_mean col = Val c"
proof -
  let ?vs = "filter (\<lambda>v. v \<noteq> NaN) col"
  have "\<forall>v\<in>set ?vs. v = Val c" using assms(1) by auto
  then have "?vs = replicate (length ?vs) (Val c)"
    by (simp add: replicate_length_same)
  then have vs: "?vs = map Val (replicate (length ?vs) c)" by simp
  have ne: "replicate (length ?vs) c \<noteq> []"
    using assms(2) by (auto simp: filter_empty_conv)
  then have pos: "real (length ?vs) \<noteq> 0" by simp
  from column_mean_defined [OF vs ne] pos show ?thesis
    by (simp add: sum_list_replicate)
qed

lemma site_no_average:
  assumes ne: "df \<noteq> []" and srt: "sorted (map Date df)" and c: "\<forall>ob\<in>set df. site_no ob = c"
  shows "column_mean (map (\<lambda>g. Series_mean (site_column (snd g))) (resample_AS_OCT df)) = Val (real_of_int c)"
proof (rule column_mean_const)
  let ?a = "wateryear (Date (hd df))" and ?b = "wateryear (Date (last df))"
  let ?grp = "\<lambda>k. filter (\<lambda>ob. wateryear (Date ob) = k) df"
  have cell: "Series_mean (site_column (?grp k)) = (if ?grp k = [] then NaN else Val (real_of_int c))" for k
    by (rule site_mean_const) (use c in auto)
  show "\<forall>v\<in>set (map (\<lambda>g. Series_mean (site_column (snd g))) (resample_AS_OCT df)).
          v = NaN \<or> v = Val (real_of_int c)"
    using ne cell by (auto simp: resample_AS_OCT_def)
  have "Date (hd df) \<le> Date (last df)"
  proof (cases "length df = 1")
    case True
    then show ?thesis by (cases df) auto
  next
    case False
    with ne have "hd df = df ! 0" "last df = df ! (length df - 1)" "0 < length df - 1"
      by (auto simp: hd_conv_nth last_conv_nth Suc_lessI)
    moreover have "map Date df ! 0 \<le> map Date df ! (length df - 1)"
      using srt ne by (intro sorted_nth_mono) auto
    ultimately show ?thesis using ne by simp
  qed
  then have ab: "?a \<le> ?b" by (rule wateryear_mono)
  have "hd df \<in> set df" using ne by simp
  then have "?grp ?a \<noteq> []" by (auto simp: filter_empty_conv)
  with cell [of ?a] have "Series_mean (site_column (?grp ?a)) = Val (real_of_int c)" by simp
  moreover have "?a \<in> set [?a..?b]" using ab by simp
  ultimately show "Val (real_of_int c) \<in> set (map (\<lambda>g. Series_mean (site_column (snd g))) (resample_AS_OCT df))"
    using ne by (force simp: resample_AS_OCT_def image_iff)
qed

text \<open>
  Claim C10. \<open>GetAnnualAverages\<close> takes the mean of every column of the water-year table,
  under the column's name, leaving out the not-a-number cells of the column. The table of
  \<open>GetAnnualStatistics\<close> has the column \<open>site_no\<close> beside the metric columns, so the
  summary has an averaged \<open>site_no\<close> entry; it is the station's site number when every
  row of the series carries the same site number, and the mean of the cells otherwise.
\<close>

theorem GetAnnualAverages_every_column:
  "map fst (GetAnnualAverages (idx, cols)) = map fst cols
   \<and> map snd (GetAnnualAverages (idx, cols)) = map (\<lambda>c. column_mean (snd c)) cols
   \<and> column_mean col = column_mean (filter (\<lambda>v. v \<noteq> NaN) col)
   \<and> (xs \<noteq> [] \<longrightarrow> column_mean (map Val xs) = Val (sum_list xs / real (length xs)))
   \<and> map fst (snd (GetAnnualStatistics fmean df)) =
       [''site_no'', ''Mean Flow'', ''Peak Flow'', ''Median Flow'', ''Coeff Var'', ''Skew'',
        ''Tqmean'', ''R-B Index'', ''7Q'', ''3xMedian'']
   \<and> (df \<noteq> [] \<and> sorted (map Date df) \<and> (\<forall>ob\<in>set df. site_no ob = c) \<longrightarrow>
        hd (GetAnnualAverages (GetAnnualStatistics fmean df)) = (''site_no'', Val (real_of_int c)))
   \<and> GetAnnualAverages (idx, [(''site_no'', [Val 1, NaN, Val 3])]) = [(''site_no'', Val 2)]"
proof -
  have a: "map fst (GetAnnualAverages (idx, cols)) = map fst cols"
    by (simp add: GetAnnualAverages_def comp_def)
  have b: "map snd (GetAnnualAverages (idx, cols)) = map (\<lambda>c. column_mean (snd c)) cols"
    by (simp add: GetAnnualAverages_def comp_def)
  have c: "map fst (snd (GetAnnualStatistics fmean df)) =
       [''site_no'', ''Mean Flow'', ''Peak Flow'', ''Median Flow'', ''Coeff Var'', ''Skew'',
        ''Tqmean'', ''R-B Index'', ''7Q'', ''3xMedian'']"
    by (simp add: GetAnnualStatistics_def Let_def)
  have d: "hd (GetAnnualAverages (GetAnnualStatistics fmean df)) = (''site_no'', Val (real_of_int c))"
    if "df \<noteq> [] \<and> sorted (map Date df) \<and> (\<forall>ob\<in>set df. site_no ob = c)"
    using site_no_average [of df c] that
    by (simp add: GetAnnualAverages_def GetAnnualStatistics_def Let_def)
  have e: "GetAnnualAverages (idx, [(''site_no'', [Val 1, NaN, Val 3])]) = [(''site_no'', Val 2)]"
    by (simp add: GetAnnualAverages_def column_mean_def fdiv_def)
  show ?thesis using a b column_mean_skips [of col] column_mean_Val [of xs] c d e
    by (intro conjI impI)
qed

theorem GetAnnualAverages_every_column_witness:
  "scenario_B \<noteq> [] \<and> sorted (map Date scenario_B)
   \<and> map site_no scenario_B = [3335000, 3335000, 3335000]
   \<and> hd (GetAnnualAverages (GetAnnualStatistics mean_f64 scenario_B)) = (''site_no'', Val 3335000)
   \<and> column_mean (map Val [1, 3]) = Val 2"
proof -
  have h1: "scenario_B \<noteq> []" by (simp add: scenario_B_def)
  have h2: "sorted (map Date scenario_B)" by (simp add: scenario_B_def reading_def)
  have h3: "map site_no scenario_B = [3335000, 3335000, 3335000]"
    by (simp add: scenario_B_def reading_def)
  then have h4: "\<forall>ob\<in>set scenario_B. site_no ob = 3335000"
    by (simp add: scenario_B_def reading_def)
  have h5: "[1, 3 :: real] \<noteq> []" by simp
  note t = GetAnnualAverages_every_column
    [where df = scenario_B and c = 3335000 and xs = "[1, 3]" and fmean = mean_f64
       and idx = "[] :: date list" and cols = "[]" and col = "[]"]
  have s: "hd (GetAnnualAverages (GetAnnualStatistics mean_f64 scenario_B)) = (''site_no'', Val 3335000)"
    using t [THEN conjunct2, THEN conjunct2, THEN conjunct2, THEN conjunct2, THEN conjunct2,
        THEN conjunct1] h1 h2 h4
    by simp
  have m: "column_mean (map Val [1, 3]) = Val 2"
    using t [THEN conjunct2, THEN conjunct2, THEN conjunct2, THEN conjunct1] h5 by simp
  show ?thesis using h1 h2 h3 s m by (intro conjI)
qed

end
